theory Spec2Isabelle
  imports
    Main
    "HOL-Library.Multiset"
    "HOL-Library.AList"
    "HOL-Library.Char_ord"
    "HOL-Library.List_Lexorder"
begin

section \<open>Experiment views of the control plane\<close>

text \<open>
  A shallow embedding of the view functions of \<^verbatim>\<open>api/experiments/views.py\<close>.
  A view reads its request, asks collaborators that live outside this module (the
  permission and lookup helpers, the serializers, the TTL store, the specification
  validator, the model methods), performs effects (audit records, queued tasks, TTL
  writes, rows saved) and answers with a response or raises. In the model a view is a
  function that returns the outcome together with the effects it performed, in the
  order in which it performed them; an exception is the \<open>Inl\<close> of a sum, and the
  effects performed before the raise stay in the trace.
\<close>

subsection \<open>Values of a request body\<close>

text \<open>
  \<^verbatim>\<open>request.data\<close> is parsed JSON: Python's \<^verbatim>\<open>None\<close>, booleans, integers,
  strings, lists and dicts (a dict as an association list, looked up from the front).
  Fractional numbers do not occur in what the views below inspect.
\<close>

datatype json =
    JNull
  | JBool bool
  | JInt int
  | JStr string
  | JList "json list"
  | JDict "(string \<times> json) list"

text \<open>Python's truth value of an object, as \<^verbatim>\<open>if ttl:\<close> tests it.\<close>

fun truthy :: "json \<Rightarrow> bool" where
  "truthy JNull = False"
| "truthy (JBool b) = b"
| "truthy (JInt i) = (i \<noteq> 0)"
| "truthy (JStr s) = (s \<noteq> [])"
| "truthy (JList xs) = (xs \<noteq> [])"
| "truthy (JDict kvs) = (kvs \<noteq> [])"

text \<open>\<^verbatim>\<open>d.get(k)\<close>: the value under the key, \<^verbatim>\<open>None\<close> when the key is absent.\<close>

definition dict_get :: "(string \<times> json) list \<Rightarrow> string \<Rightarrow> json" where
  "dict_get d k = (case map_of d k of None \<Rightarrow> JNull | Some v \<Rightarrow> v)"

text \<open>\<^verbatim>\<open>k in d\<close>.\<close>

definition dict_has :: "(string \<times> json) list \<Rightarrow> string \<Rightarrow> bool" where
  "dict_has d k = (map_of d k \<noteq> None)"

subsection \<open>Model objects\<close>

record User =
  user_id :: int
  username :: string

text \<open>
  \<^verbatim>\<open>db/models/projects.py\<close>: the fields of \<^verbatim>\<open>Project\<close> that the views read. The uuid
  is kept as its \<^verbatim>\<open>hex\<close> string.
\<close>

record Project =
  project_id :: int
  project_uuid_hex :: string
  project_name :: string
  project_user :: User
  is_public :: bool

text \<open>
  \<^verbatim>\<open>Project.unique_name\<close>: \<^verbatim>\<open>PROJECT_UNIQUE_NAME_FORMAT.format(user=..., project=...)\<close>.
  The format constant is declared in \<^verbatim>\<open>db.models.unique_names\<close>, outside the sources at
  hand, and is a parameter.
\<close>

definition unique_name :: "(string \<Rightarrow> string \<Rightarrow> string) \<Rightarrow> Project \<Rightarrow> string" where
  "unique_name name_format p = name_format (username (project_user p)) (project_name p)"

record ExperimentGroup =
  group_id :: int
  group_uuid_hex :: string
  group_unique_name :: string

text \<open>
  The attributes of an \<^verbatim>\<open>Experiment\<close> that the views read: \<open>exp_config\<close> is
  \<^verbatim>\<open>config\<close>, the stored specification, \<open>exp_parsed_data\<close> is
  \<^verbatim>\<open>specification.parsed_data\<close>, and \<^verbatim>\<open>last_status\<close> is \<^verbatim>\<open>None\<close> while the
  experiment has no status row.
\<close>

record Experiment =
  exp_id :: int
  exp_uuid_hex :: string
  exp_unique_name :: string
  exp_user :: User
  exp_project :: Project
  exp_group :: "ExperimentGroup option"
  exp_config :: json
  exp_parsed_data :: json
  last_status :: "string option"

subsection \<open>Outcomes and effects\<close>

datatype error =
    ValidationError string
  | Http404
  | PermissionDenied
  | AttributeError
  | MultipleObjectsReturned

datatype response = Response nat json

definition HTTP_200_OK :: nat where "HTTP_200_OK = 200"
definition HTTP_201_CREATED :: nat where "HTTP_201_CREATED = 201"
definition HTTP_403_FORBIDDEN :: nat where "HTTP_403_FORBIDDEN = 403"

text \<open>
  The event types of \<^verbatim>\<open>event_manager.events\<close> and the task names of
  \<^verbatim>\<open>SchedulerCeleryTasks\<close> that these views use, by their names.
\<close>

datatype event_type =
    EXPERIMENT_CREATED
  | EXPERIMENT_RESTARTED_TRIGGERED
  | EXPERIMENT_RESUMED_TRIGGERED
  | EXPERIMENT_COPIED_TRIGGERED
  | EXPERIMENT_STOPPED_TRIGGERED
  | EXPERIMENT_GROUP_EXPERIMENTS_VIEWED
  | PROJECT_EXPERIMENTS_VIEWED

datatype task_name = EXPERIMENTS_STOP | EXPERIMENTS_SET_METRICS

datatype model_instance =
    ExperimentInstance Experiment
  | ProjectInstance Project
  | GroupInstance ExperimentGroup

text \<open>The three routed subclasses of \<^verbatim>\<open>ExperimentCloneView\<close>.\<close>

datatype clone_view = ExperimentRestartView | ExperimentResumeView | ExperimentCopyView

text \<open>
  What a view does to the world, one constructor for each call:
  \<^verbatim>\<open>auditor.record(event_type, instance, actor_id, actor_name)\<close> (the actor is absent
  where the call gives none), \<^verbatim>\<open>celery_app.send_task(name, kwargs)\<close>,
  \<^verbatim>\<open>RedisTTL.set_for_experiment(experiment_id, value)\<close>, the model method
  \<^verbatim>\<open>obj.restart\<close>, \<^verbatim>\<open>obj.resume\<close> or \<^verbatim>\<open>obj.copy\<close> with its arguments (user, config,
  declarations, update_code_reference, description), which creates the derived
  experiment, and the two \<^verbatim>\<open>serializer.save\<close> calls that insert a row.
\<close>

datatype effect =
    AuditorRecord event_type model_instance "(int \<times> string) option"
  | SendTask task_name "(string \<times> json) list"
  | SetForExperiment int json
  | Clone clone_view Experiment User json json bool json
  | SaveExperiment User Project
  | SaveMetric Experiment json

fun is_record :: "effect \<Rightarrow> bool" where
  "is_record (AuditorRecord t i a) = True"
| "is_record _ = False"

fun is_clone :: "effect \<Rightarrow> bool" where
  "is_clone (Clone v obj u c d r ds) = True"
| "is_clone _ = False"

fun is_set_ttl :: "effect \<Rightarrow> bool" where
  "is_set_ttl (SetForExperiment i v) = True"
| "is_set_ttl _ = False"

fun is_save_metric :: "effect \<Rightarrow> bool" where
  "is_save_metric (SaveMetric e d) = True"
| "is_save_metric _ = False"

record request =
  req_user :: User
  req_data :: json
  req_query_params :: "(string \<times> string) list"


record Specification =
  spec_parsed_data :: json
  spec_declarations :: json

text \<open>
  The collaborators of the views, none of them among the sources at hand, as
  parameters: \<^verbatim>\<open>RedisTTL.validate_ttl\<close> (\<open>None\<close> is its \<^verbatim>\<open>ValueError\<close>),
  \<^verbatim>\<open>to_bool(value, handle_none=True, exception=ValidationError)\<close>,
  \<^verbatim>\<open>get_permissible_project(view=self)\<close>, \<^verbatim>\<open>self.get_object()\<close>,
  \<^verbatim>\<open>get_object_or_404\<close> on the experiments and on the groups of a project, the number of
  rows of \<^verbatim>\<open>ExperimentGroup.objects.filter(id=group, project=project)\<close>, the experiment
  that \<^verbatim>\<open>serializer.save(user, project)\<close> inserts, the experiment that the model methods
  \<^verbatim>\<open>restart\<close>, \<^verbatim>\<open>resume\<close> and \<^verbatim>\<open>copy\<close> return,
  \<^verbatim>\<open>validate_experiment_spec_config(config, raise_for_rest=True)\<close>, the serializers'
  output and validation, the filter backends behind \<^verbatim>\<open>super().filter_queryset\<close> and the
  format of a project's unique name.
\<close>

record collaborators =
  validate_ttl :: "json \<Rightarrow> json option"
  to_bool :: "json \<Rightarrow> error + bool"
  get_permissible_project :: "error + Project"
  get_object :: "error + Experiment"
  get_experiment_or_404 :: "Project \<Rightarrow> int \<Rightarrow> error + Experiment"
  get_group_or_404 :: "Project \<Rightarrow> json \<Rightarrow> error + ExperimentGroup"
  count_groups :: "json \<Rightarrow> Project \<Rightarrow> nat"
  serializer_save :: "User \<Rightarrow> Project \<Rightarrow> Experiment"
  clone :: "clone_view \<Rightarrow> Experiment \<Rightarrow> User \<Rightarrow> json \<Rightarrow> json \<Rightarrow> bool \<Rightarrow> json \<Rightarrow> Experiment"
  validate_spec :: "json list \<Rightarrow> error + Specification"
  serializer_data :: "Experiment \<Rightarrow> json"
  metric_is_valid :: "json \<Rightarrow> error option"
  metric_data :: "Experiment \<Rightarrow> json \<Rightarrow> json"
  super_filter_queryset :: "Experiment list \<Rightarrow> Experiment list"
  PROJECT_UNIQUE_NAME_FORMAT :: "string \<Rightarrow> string \<Rightarrow> string"

subsection \<open>Exchanging a scope token\<close>

text \<open>
  Modelled from the spec: the constants of \<^verbatim>\<open>constants.experiments.ExperimentLifeCycle\<close>
  are not among the sources at hand; the specification names the statuses in which an
  experiment is live as scheduled, starting and running.
\<close>

definition SCHEDULED :: string where "SCHEDULED = ''scheduled''"
definition STARTING :: string where "STARTING = ''starting''"
definition RUNNING :: string where "RUNNING = ''running''"

record Token =
  token_key :: string
  token_user :: int

text \<open>
  Modelled from the spec: \<^verbatim>\<open>Token.objects.get_or_create(user=...)\<close> belongs to the
  object-relational layer, not to the sources at hand. The specification describes it
  as an idempotent upsert: look the credential of the user up; if there is none, create
  one; hand back the single resulting credential. The table is the list of rows, the
  key of a new row comes from the random generator (a parameter), and a lookup that
  meets several rows raises, as the layer's \<^verbatim>\<open>get\<close> does.
\<close>

definition get_or_create ::
  "Token list \<Rightarrow> int \<Rightarrow> string \<Rightarrow> error + (Token \<times> bool) \<times> Token list" where
  "get_or_create tokens uid fresh_key =
     (case filter (\<lambda>t. token_user t = uid) tokens of
        [] \<Rightarrow>
          (let t = \<lparr>token_key = fresh_key, token_user = uid\<rparr>
           in Inr ((t, True), tokens @ [t]))
      | [t] \<Rightarrow> Inr ((t, False), tokens)
      | _ \<Rightarrow> Inl MultipleObjectsReturned)"

text \<open>
  \<^verbatim>\<open>ExperimentScopeTokenView.post\<close>. \<open>user_scope\<close> is \<^verbatim>\<open>request.user.scope\<close>
  (\<^verbatim>\<open>None\<close> or a list of tags), \<open>got_object\<close> the result of \<^verbatim>\<open>self.get_object()\<close>,
  \<open>scope_of\<close> is \<^verbatim>\<open>RedisEphemeralTokens.get_scope\<close> (outside the sources at hand, a
  parameter). The token table is passed through.
\<close>

definition ExperimentScopeTokenView_post ::
  "string list option \<Rightarrow> error + Experiment \<Rightarrow> (int \<Rightarrow> string \<Rightarrow> int \<Rightarrow> string list) \<Rightarrow>
   Token list \<Rightarrow> string \<Rightarrow> (error + response) \<times> Token list" where
  "ExperimentScopeTokenView_post user_scope got_object scope_of tokens fresh_key =
     (case user_scope of
        None \<Rightarrow> (Inr (Response HTTP_403_FORBIDDEN JNull), tokens)
      | Some presented \<Rightarrow>
         (case got_object of
            Inl e \<Rightarrow> (Inl e, tokens)
          | Inr experiment \<Rightarrow>
             if last_status experiment \<notin> set [Some SCHEDULED, Some STARTING, Some RUNNING]
             then (Inr (Response HTTP_403_FORBIDDEN JNull), tokens)
             else
               (let scope = scope_of (user_id (exp_user experiment)) ''experiment''
                              (exp_id experiment)
                in if sort presented \<noteq> sort scope
                   then (Inr (Response HTTP_403_FORBIDDEN JNull), tokens)
                   else
                     (case get_or_create tokens (user_id (exp_user experiment)) fresh_key of
                        Inl e \<Rightarrow> (Inl e, tokens)
                      | Inr ((tok, created), tokens') \<Rightarrow>
                          (Inr (Response HTTP_200_OK (JDict [(''token'', JStr (token_key tok))])),
                           tokens')))))"

subsection \<open>Listing and creating the experiments of a project\<close>



text \<open>
  Modelled from the spec: \<^verbatim>\<open>RedisTTL.TTL_KEY\<close> is declared in \<^verbatim>\<open>db.redis.tll\<close>, not among
  the sources at hand; the specification and the error message call the input
  \<^verbatim>\<open>ttl\<close>.
\<close>

definition TTL_KEY :: string where "TTL_KEY = ''ttl''"

text \<open>
  \<^verbatim>\<open>ProjectExperimentListView.perform_create\<close>. It runs on a request body that the
  serializer has accepted, a dict; the result is the instance saved.
\<close>

definition perform_create ::
  "collaborators \<Rightarrow> User \<Rightarrow> (string \<times> json) list \<Rightarrow> (error + Experiment) \<times> effect list" where
  "perform_create c request_user d =
     (let ttl = dict_get d TTL_KEY
      in case (if truthy ttl
               then (case validate_ttl c ttl of
                       None \<Rightarrow> Inl (ValidationError ''ttl must be an integer.'')
                     | Some v \<Rightarrow> Inr v)
               else Inr ttl) of
           Inl e \<Rightarrow> (Inl e, [])
         | Inr ttl \<Rightarrow>
            (case get_permissible_project c of
               Inl e \<Rightarrow> (Inl e, [])
             | Inr project \<Rightarrow>
                (let grp = dict_get d ''experiment_group''
                 in if truthy grp \<and> count_groups c grp project = 0
                    then (Inl (ValidationError ''Received an invalid group.''), [])
                    else
                     (let instance = serializer_save c request_user project;
                          tr = [SaveExperiment request_user project,
                                AuditorRecord EXPERIMENT_CREATED (ExperimentInstance instance) None]
                      in (Inr instance,
                          if truthy ttl then tr @ [SetForExperiment (exp_id instance) ttl]
                          else tr)))))"

subsection \<open>Restart, resume and copy\<close>

text \<open>The class attribute \<^verbatim>\<open>event_type\<close> of the three subclasses.\<close>

fun clone_event_type :: "clone_view \<Rightarrow> event_type" where
  "clone_event_type ExperimentRestartView = EXPERIMENT_RESTARTED_TRIGGERED"
| "clone_event_type ExperimentResumeView = EXPERIMENT_RESUMED_TRIGGERED"
| "clone_event_type ExperimentCopyView = EXPERIMENT_COPIED_TRIGGERED"

text \<open>
  \<^verbatim>\<open>ExperimentCloneView.post\<close>, as the subclass \<open>view\<close> inherits it; \<^verbatim>\<open>self.clone\<close> is
  the subclass's call of the model method. A request body that is not a dict has no
  \<^verbatim>\<open>get\<close>: the first statement raises.
\<close>

definition ExperimentCloneView_post ::
  "clone_view \<Rightarrow> collaborators \<Rightarrow> request \<Rightarrow> (error + response) \<times> effect list" where
  "ExperimentCloneView_post view c request =
     (case req_data request of
        JDict d \<Rightarrow>
         (let ttl = dict_get d TTL_KEY
          in case (if truthy ttl
                   then (case validate_ttl c ttl of
                           None \<Rightarrow> Inl (ValidationError ''ttl must be an integer.'')
                         | Some v \<Rightarrow> Inr v)
                   else Inr ttl) of
               Inl e \<Rightarrow> (Inl e, [])
             | Inr ttl \<Rightarrow>
                (case get_object c of
                   Inl e \<Rightarrow> (Inl e, [])
                 | Inr obj \<Rightarrow>
                    (let tr = [AuditorRecord (clone_event_type view) (ExperimentInstance obj)
                                 (Some (user_id (req_user request), username (req_user request)))]
                     in case (if dict_has d ''config''
                              then (case validate_spec c [exp_parsed_data obj, dict_get d ''config''] of
                                      Inl e \<Rightarrow> Inl e
                                    | Inr spec \<Rightarrow> Inr (spec_parsed_data spec, spec_declarations spec))
                              else Inr (JNull, JNull)) of
                          Inl e \<Rightarrow> (Inl e, tr)
                        | Inr (config, declarations) \<Rightarrow>
                           (case (if dict_has d ''update_code''
                                  then to_bool c (dict_get d ''update_code'')
                                  else Inr False) of
                              Inl e \<Rightarrow> (Inl e, tr)
                            | Inr update_code_reference \<Rightarrow>
                               (let description = (if dict_has d ''description''
                                                   then dict_get d ''description'' else JNull);
                                    new_obj = clone c view obj (req_user request) config
                                                declarations update_code_reference description;
                                    tr = tr @ [Clone view obj (req_user request) config
                                                 declarations update_code_reference description]
                                in (Inr (Response HTTP_201_CREATED (serializer_data c new_obj)),
                                    if truthy ttl
                                    then tr @ [SetForExperiment (exp_id new_obj) ttl]
                                    else tr))))))
      | _ \<Rightarrow> (Inl AttributeError, []))"

text \<open>
  Modelled from the spec: \<^verbatim>\<open>libs.spec_validation.validate_experiment_spec_config\<close> is
  not among the sources at hand. The specification has it validate an ordered list of
  configurations in which later entries override earlier keys, and has a failure be a
  configuration error shown to the client. The schema check and the extraction of the
  declarations are parameters; a check that fails gives the message of the error.
\<close>

definition override :: "json \<Rightarrow> json \<Rightarrow> json" where
  "override earlier later =
     (case (earlier, later) of
        (JDict a, JDict b) \<Rightarrow> JDict (AList.merge a b)
      | _ \<Rightarrow> later)"

definition validate_experiment_spec_config ::
  "(json \<Rightarrow> string option) \<Rightarrow> (json \<Rightarrow> json) \<Rightarrow> json list \<Rightarrow> error + Specification" where
  "validate_experiment_spec_config check declarations_of configs =
     (let merged = (case configs of
                      [] \<Rightarrow> JDict []
                    | first # rest \<Rightarrow> foldl override first rest)
      in case check merged of
           Some message \<Rightarrow> Inl (ValidationError message)
         | None \<Rightarrow> Inr \<lparr>spec_parsed_data = merged, spec_declarations = declarations_of merged\<rparr>)"

subsection \<open>Metrics\<close>

text \<open>\<^verbatim>\<open>ExperimentViewMixin.get_experiment\<close>, with \<^verbatim>\<open>self.kwargs['experiment_id']\<close>.\<close>

definition get_experiment :: "collaborators \<Rightarrow> int \<Rightarrow> error + Experiment" where
  "get_experiment c experiment_id =
     (case get_permissible_project c of
        Inl e \<Rightarrow> Inl e
      | Inr project \<Rightarrow> get_experiment_or_404 c project experiment_id)"

fun is_list :: "json \<Rightarrow> bool" where
  "is_list (JList xs) = True"
| "is_list _ = False"

text \<open>
  \<^verbatim>\<open>ExperimentMetricListView.create\<close>, with \<^verbatim>\<open>perform_create\<close> of the same class in
  its place. The keyword arguments of the task are built, and the experiment looked
  up, before the task is sent.
\<close>

definition create ::
  "collaborators \<Rightarrow> int \<Rightarrow> request \<Rightarrow> (error + response) \<times> effect list" where
  "create c experiment_id request =
     (if is_list (req_data request)
      then
        (case get_experiment c experiment_id of
           Inl e \<Rightarrow> (Inl e, [])
         | Inr e \<Rightarrow>
             (Inr (Response HTTP_201_CREATED JNull),
              [SendTask EXPERIMENTS_SET_METRICS
                 [(''experiment_id'', JInt (exp_id e)), (''data'', req_data request)]]))
      else
        (case metric_is_valid c (req_data request) of
           Some e \<Rightarrow> (Inl e, [])
         | None \<Rightarrow>
            (case get_experiment c experiment_id of
               Inl e \<Rightarrow> (Inl e, [])
             | Inr e \<Rightarrow>
                 (Inr (Response HTTP_201_CREATED (metric_data c e (req_data request))),
                  [SaveMetric e (req_data request)]))))"

subsection \<open>Stopping an experiment\<close>

text \<open>\<^verbatim>\<open>ExperimentStopView.post\<close>.\<close>

definition ExperimentStopView_post ::
  "collaborators \<Rightarrow> request \<Rightarrow> (error + response) \<times> effect list" where
  "ExperimentStopView_post c request =
     (case get_object c of
        Inl e \<Rightarrow> (Inl e, [])
      | Inr obj \<Rightarrow>
         (let grp = exp_group obj
          in (Inr (Response HTTP_200_OK JNull),
              [AuditorRecord EXPERIMENT_STOPPED_TRIGGERED (ExperimentInstance obj)
                 (Some (user_id (req_user request), username (req_user request))),
               SendTask EXPERIMENTS_STOP
                 [(''project_name'',
                     JStr (unique_name (PROJECT_UNIQUE_NAME_FORMAT c) (exp_project obj))),
                  (''project_uuid'', JStr (project_uuid_hex (exp_project obj))),
                  (''experiment_name'', JStr (exp_unique_name obj)),
                  (''experiment_uuid'', JStr (exp_uuid_hex obj)),
                  (''experiment_group_name'',
                     (case grp of None \<Rightarrow> JNull | Some g \<Rightarrow> JStr (group_unique_name g))),
                  (''experiment_group_uuid'',
                     (case grp of None \<Rightarrow> JNull | Some g \<Rightarrow> JStr (group_uuid_hex g))),
                  (''specification'', exp_config obj),
                  (''update_status'', JBool True)]])))"

subsection \<open>Example data\<close>

text \<open>
  A user, a project, a running experiment of theirs, a second experiment that has
  succeeded, a token table, and collaborators that answer with them: the inputs at which
  the theorems below are instantiated.
\<close>

definition example_user :: User where
  "example_user = \<lparr>user_id = 7, username = ''ada''\<rparr>"

definition example_project :: Project where
  "example_project =
     \<lparr>project_id = 2, project_uuid_hex = ''aa11'', project_name = ''mnist'',
      project_user = example_user, is_public = True\<rparr>"

definition example_experiment :: Experiment where
  "example_experiment =
     \<lparr>exp_id = 3, exp_uuid_hex = ''bb22'', exp_unique_name = ''ada.mnist.3'',
      exp_user = example_user, exp_project = example_project, exp_group = None,
      exp_config = JDict [(''lr'', JStr ''0.1'')],
      exp_parsed_data = JDict [(''lr'', JStr ''0.1'')],
      last_status = Some ''running''\<rparr>"

definition finished_experiment :: Experiment where
  "finished_experiment = example_experiment\<lparr>last_status := Some ''succeeded''\<rparr>"

definition example_get_scope :: "int \<Rightarrow> string \<Rightarrow> int \<Rightarrow> string list" where
  "example_get_scope uid model object_id = [''user'', model]"

definition empty_get_scope :: "int \<Rightarrow> string \<Rightarrow> int \<Rightarrow> string list" where
  "empty_get_scope uid model object_id = []"

definition example_tokens :: "Token list" where
  "example_tokens =
     [\<lparr>token_key = ''k0'', token_user = 7\<rparr>, \<lparr>token_key = ''k5'', token_user = 5\<rparr>]"

fun example_validate_ttl :: "json \<Rightarrow> json option" where
  "example_validate_ttl (JInt i) = Some (JInt i)"
| "example_validate_ttl v = None"

definition example_to_bool :: "json \<Rightarrow> error + bool" where
  "example_to_bool v =
     (if v = JStr ''true'' \<or> v = JBool True then Inr True
      else if v = JNull \<or> v = JStr ''false'' \<or> v = JBool False then Inr False
      else Inl (ValidationError ''not a boolean''))"

definition example_clone ::
  "clone_view \<Rightarrow> Experiment \<Rightarrow> User \<Rightarrow> json \<Rightarrow> json \<Rightarrow> bool \<Rightarrow> json \<Rightarrow> Experiment" where
  "example_clone view obj u cfg dcl ucr ds =
     obj\<lparr>exp_id := exp_id obj + 1, exp_uuid_hex := ''cc33'',
         exp_unique_name := ''ada.mnist.4'', exp_user := u,
         exp_config := (if cfg = JNull then exp_config obj else cfg),
         exp_parsed_data := (if cfg = JNull then exp_parsed_data obj else cfg),
         last_status := None\<rparr>"

definition example_collaborators :: collaborators where
  "example_collaborators =
     \<lparr>validate_ttl = example_validate_ttl,
      to_bool = example_to_bool,
      get_permissible_project = Inr example_project,
      get_object = Inr example_experiment,
      get_experiment_or_404 = (\<lambda>p i. if i = 3 then Inr example_experiment else Inl Http404),
      get_group_or_404 = (\<lambda>p g. Inl Http404),
      count_groups = (\<lambda>g p. 0),
      serializer_save = (\<lambda>u p. example_experiment\<lparr>exp_id := 4, last_status := None\<rparr>),
      clone = example_clone,
      validate_spec = (\<lambda>cs. Inl (ValidationError ''no validator'')),
      serializer_data = (\<lambda>e. JDict [(''id'', JInt (exp_id e))]),
      metric_is_valid = (\<lambda>d. None),
      metric_data = (\<lambda>e d. d),
      super_filter_queryset = (\<lambda>q. q),
      PROJECT_UNIQUE_NAME_FORMAT = (\<lambda>u p. u @ ''.'' @ p)\<rparr>"

text \<open>A schema check that wants a mapping, and collaborators that validate with it.\<close>

fun example_check :: "json \<Rightarrow> string option" where
  "example_check (JDict d) = None"
| "example_check v = Some ''not a mapping''"

definition validating_collaborators :: collaborators where
  "validating_collaborators =
     example_collaborators
       \<lparr>validate_spec := validate_experiment_spec_config example_check (\<lambda>m. m)\<rparr>"

definition restart_request :: request where
  "restart_request =
     \<lparr>req_user = example_user,
      req_data = JDict [(''config'', JDict [(''lr'', JStr ''0.01'')]), (''ttl'', JInt 0)],
      req_query_params = []\<rparr>"

definition metrics_request :: request where
  "metrics_request =
     \<lparr>req_user = example_user,
      req_data = JList [JDict [(''loss'', JInt 3)], JDict [(''loss'', JInt 2)],
                        JDict [(''loss'', JInt 1)]],
      req_query_params = []\<rparr>"



definition example_group :: ExperimentGroup where
  "example_group =
     \<lparr>group_id = 5, group_uuid_hex = ''dd44'', group_unique_name = ''ada.mnist.5''\<rparr>"

definition grouped_experiment :: Experiment where
  "grouped_experiment = example_experiment\<lparr>exp_group := Some example_group\<rparr>"

definition plain_restart_request :: request where
  "plain_restart_request =
     \<lparr>req_user = example_user, req_data = JDict [(''description'', JStr ''again'')],
      req_query_params = []\<rparr>"

definition grouped_collaborators :: collaborators where
  "grouped_collaborators = example_collaborators\<lparr>get_object := Inr grouped_experiment\<rparr>"

definition zero_ttl_body :: "(string \<times> json) list" where
  "zero_ttl_body = [(''ttl'', JInt 0)]"

definition blank_ttl_body :: "(string \<times> json) list" where
  "blank_ttl_body = [(''ttl'', JStr '''')]"

definition zero_ttl_request :: request where
  "zero_ttl_request =
     \<lparr>req_user = example_user, req_data = JDict zero_ttl_body, req_query_params = []\<rparr>"

definition bad_ttl_request :: request where
  "bad_ttl_request =
     \<lparr>req_user = example_user, req_data = JDict [(''ttl'', JStr ''soon'')],
      req_query_params = []\<rparr>"

section \<open>Properties\<close>

subsection \<open>Scope tokens\<close>

lemma sort_eq_iff_mset: "sort xs = sort ys \<longleftrightarrow> mset xs = mset ys"
proof
  assume "sort xs = sort ys"
  then have "mset (sort xs) = mset (sort ys)" by simp
  then show "mset xs = mset ys" by simp
next
  assume "mset xs = mset ys"
  then show "sort xs = sort ys"
    by (metis properties_for_sort sorted_sort mset_sort)
qed

lemma example_experiment_live:
  "last_status example_experiment \<in> set [Some SCHEDULED, Some STARTING, Some RUNNING]"
  by (simp add: example_experiment_def RUNNING_def)

text \<open>
  C1, as the code has it. For a live experiment and a caller that presents a scope,
  the exchange is forbidden exactly when the presented list and the stored list differ
  as multisets: the comparison of the two sorted lists ignores the order and counts
  repetitions. The lists have to match as a whole; sharing some tags is not enough.
\<close>

theorem scope_validation_multiset:
  assumes "last_status e \<in> set [Some SCHEDULED, Some STARTING, Some RUNNING]"
  shows "(fst (ExperimentScopeTokenView_post (Some presented) (Inr e) scope_of tokens k)
            = Inr (Response HTTP_403_FORBIDDEN JNull))
     \<longleftrightarrow> mset presented \<noteq> mset (scope_of (user_id (exp_user e)) ''experiment'' (exp_id e))"
  using assms
  by (auto simp: ExperimentScopeTokenView_post_def Let_def sort_eq_iff_mset
        HTTP_200_OK_def HTTP_403_FORBIDDEN_def split: sum.splits prod.splits)

theorem scope_validation_multiset_witness:
  "last_status example_experiment \<in> set [Some SCHEDULED, Some STARTING, Some RUNNING]
   \<and> fst (ExperimentScopeTokenView_post (Some [''experiment'', ''user'']) (Inr example_experiment)
            example_get_scope example_tokens ''k1'')
       \<noteq> Inr (Response HTTP_403_FORBIDDEN JNull)
   \<and> fst (ExperimentScopeTokenView_post (Some [''user'']) (Inr example_experiment)
            example_get_scope example_tokens ''k1'')
       = Inr (Response HTTP_403_FORBIDDEN JNull)"
proof -
  note live = example_experiment_live
  have same: "mset [''experiment'', ''user'']
      = mset (example_get_scope (user_id (exp_user example_experiment)) ''experiment''
                (exp_id example_experiment))"
    by (simp add: example_get_scope_def)
  have fewer: "mset [''user'']
      \<noteq> mset (example_get_scope (user_id (exp_user example_experiment)) ''experiment''
                (exp_id example_experiment))"
    by (simp add: example_get_scope_def)
  from scope_validation_multiset [OF live, of "[''experiment'', ''user'']" example_get_scope
      example_tokens "''k1''"] same
  have a: "fst (ExperimentScopeTokenView_post (Some [''experiment'', ''user''])
      (Inr example_experiment) example_get_scope example_tokens ''k1'')
       \<noteq> Inr (Response HTTP_403_FORBIDDEN JNull)"
    by blast
  from scope_validation_multiset [OF live, of "[''user'']" example_get_scope
      example_tokens "''k1''"] fewer
  have b: "fst (ExperimentScopeTokenView_post (Some [''user''])
      (Inr example_experiment) example_get_scope example_tokens ''k1'')
       = Inr (Response HTTP_403_FORBIDDEN JNull)"
    by blast
  from live a b show ?thesis by blast
qed

text \<open>
  C1, as the specification states it, fails: a presented list that repeats a tag is
  equal to the stored list as a set and is refused all the same.
\<close>

theorem scope_validation_set_counterexample:
  "set [''user'', ''experiment'', ''user'']
     = set (example_get_scope (user_id (exp_user example_experiment)) ''experiment''
              (exp_id example_experiment))
   \<and> fst (ExperimentScopeTokenView_post (Some [''user'', ''experiment'', ''user''])
            (Inr example_experiment) example_get_scope example_tokens ''k1'')
       = Inr (Response HTTP_403_FORBIDDEN JNull)"
  by (simp add: ExperimentScopeTokenView_post_def example_get_scope_def
        example_experiment_def example_user_def RUNNING_def SCHEDULED_def STARTING_def
        insert_commute)

text \<open>
  C2. A caller without a grant has no scope at all (\<^verbatim>\<open>user.scope is None\<close>) and is
  refused before anything is compared, whatever the stored scope is, the empty one
  included. Against an empty stored scope on a live experiment, the only caller that
  is not refused is the one that holds a grant and presents the empty scope.
\<close>

theorem no_grant_denied:
  "ExperimentScopeTokenView_post None got_object scope_of tokens k
     = (Inr (Response HTTP_403_FORBIDDEN JNull), tokens)
   \<and> (last_status e \<in> set [Some SCHEDULED, Some STARTING, Some RUNNING]
        \<and> scope_of (user_id (exp_user e)) ''experiment'' (exp_id e) = []
      \<longrightarrow> ((fst (ExperimentScopeTokenView_post us (Inr e) scope_of tokens k)
            = Inr (Response HTTP_403_FORBIDDEN JNull)) \<longleftrightarrow> us \<noteq> Some []))"
  by (cases us) (auto simp: ExperimentScopeTokenView_post_def Let_def sort_eq_iff_mset
        HTTP_200_OK_def HTTP_403_FORBIDDEN_def split: sum.splits prod.splits)

theorem no_grant_denied_witness:
  "last_status example_experiment \<in> set [Some SCHEDULED, Some STARTING, Some RUNNING]
   \<and> empty_get_scope (user_id (exp_user example_experiment)) ''experiment''
        (exp_id example_experiment) = []
   \<and> ExperimentScopeTokenView_post None (Inr example_experiment) empty_get_scope [] ''k1''
       = (Inr (Response HTTP_403_FORBIDDEN JNull), [])
   \<and> fst (ExperimentScopeTokenView_post (Some []) (Inr example_experiment) empty_get_scope
            [] ''k1'')
       \<noteq> Inr (Response HTTP_403_FORBIDDEN JNull)"
proof -
  note live = example_experiment_live
  have stored: "empty_get_scope (user_id (exp_user example_experiment)) ''experiment''
      (exp_id example_experiment) = []"
    by (simp add: empty_get_scope_def)
  note inst = no_grant_denied [of "Inr example_experiment" empty_get_scope "[]" "''k1''"
      example_experiment "Some []"]
  from inst live stored show ?thesis by blast
qed

text \<open>
  C3. An experiment whose last status is none of scheduled, starting and running is
  refused, with or without a presented scope and whatever the stored scope is; the
  token table is left as it was.
\<close>

theorem not_live_forbidden:
  assumes "last_status e \<notin> set [Some SCHEDULED, Some STARTING, Some RUNNING]"
  shows "ExperimentScopeTokenView_post us (Inr e) scope_of tokens k
           = (Inr (Response HTTP_403_FORBIDDEN JNull), tokens)"
  using assms by (cases us) (simp_all add: ExperimentScopeTokenView_post_def)

theorem not_live_forbidden_witness:
  "last_status finished_experiment \<notin> set [Some SCHEDULED, Some STARTING, Some RUNNING]
   \<and> sort [''experiment'', ''user'']
       = sort (example_get_scope (user_id (exp_user finished_experiment)) ''experiment''
                 (exp_id finished_experiment))
   \<and> ExperimentScopeTokenView_post (Some [''experiment'', ''user'']) (Inr finished_experiment)
        example_get_scope example_tokens ''k1''
       = (Inr (Response HTTP_403_FORBIDDEN JNull), example_tokens)"
proof -
  have dead: "last_status finished_experiment
      \<notin> set [Some SCHEDULED, Some STARTING, Some RUNNING]"
    by (simp add: finished_experiment_def example_experiment_def RUNNING_def SCHEDULED_def
          STARTING_def)
  have same: "sort [''experiment'', ''user'']
       = sort (example_get_scope (user_id (exp_user finished_experiment)) ''experiment''
                 (exp_id finished_experiment))"
    by (simp add: example_get_scope_def)
  from not_live_forbidden [OF dead, of "Some [''experiment'', ''user'']" example_get_scope
      example_tokens "''k1''"] dead same
  show ?thesis by blast
qed

text \<open>
  C4. With at most one token for each user in the table, every request that passes
  the checks is answered with the key of a token of the experiment's user that is in
  the table afterwards. If the user had a token, it is that token and the table is
  unchanged; otherwise one token is appended. The table still holds at most one token
  for each user.
\<close>

lemma filter_unique_key:
  "distinct (map f xs) \<Longrightarrow>
     filter (\<lambda>t. f t = u) xs = [] \<or> (\<exists>t. filter (\<lambda>t. f t = u) xs = [t])"
proof (induction xs)
  case Nil
  then show ?case by simp
next
  case (Cons a xs)
  show ?case
  proof (cases "f a = u")
    case True
    with Cons.prems have "\<forall>t \<in> set xs. f t \<noteq> u" by (auto simp: image_iff)
    then have "filter (\<lambda>t. f t = u) xs = []" by (simp add: filter_empty_conv)
    with True show ?thesis by simp
  next
    case False
    with Cons show ?thesis by simp
  qed
qed

lemma get_or_create_found:
  assumes "filter (\<lambda>t. token_user t = uid) tokens = [t]"
  shows "get_or_create tokens uid k = Inr ((t, False), tokens)"
  using assms by (simp add: get_or_create_def)

lemma get_or_create_new:
  assumes "filter (\<lambda>t. token_user t = uid) tokens = []"
  shows "get_or_create tokens uid k
           = Inr ((\<lparr>token_key = k, token_user = uid\<rparr>, True),
                  tokens @ [\<lparr>token_key = k, token_user = uid\<rparr>])"
  using assms by (simp add: get_or_create_def Let_def)

theorem token_get_or_create:
  assumes uniq: "distinct (map token_user tokens)"
      and live: "last_status e \<in> set [Some SCHEDULED, Some STARTING, Some RUNNING]"
      and ok: "sort presented = sort (scope_of (user_id (exp_user e)) ''experiment'' (exp_id e))"
  shows "\<exists>t tokens'.
           ExperimentScopeTokenView_post (Some presented) (Inr e) scope_of tokens k
             = (Inr (Response HTTP_200_OK (JDict [(''token'', JStr (token_key t))])), tokens')
         \<and> t \<in> set tokens' \<and> token_user t = user_id (exp_user e)
         \<and> distinct (map token_user tokens')
         \<and> (if \<exists>t0 \<in> set tokens. token_user t0 = user_id (exp_user e)
            then t \<in> set tokens \<and> tokens' = tokens
            else tokens' = tokens @ [\<lparr>token_key = k, token_user = user_id (exp_user e)\<rparr>])"
proof -
  let ?u = "user_id (exp_user e)"
  from filter_unique_key [OF uniq, of ?u]
  consider (new) "filter (\<lambda>t. token_user t = ?u) tokens = []"
    | (found) t where "filter (\<lambda>t. token_user t = ?u) tokens = [t]"
    by blast
  then show ?thesis
  proof cases
    case new
    then have none: "\<forall>t0 \<in> set tokens. token_user t0 \<noteq> ?u"
      by (simp add: filter_empty_conv)
    with uniq have d: "distinct (map token_user (tokens @ [\<lparr>token_key = k, token_user = ?u\<rparr>]))"
      by auto
    from live ok get_or_create_new [OF new, of k] none d show ?thesis
      by (auto simp: ExperimentScopeTokenView_post_def Let_def
            intro!: exI [of _ "\<lparr>token_key = k, token_user = ?u\<rparr>"])
  next
    case found
    then have "t \<in> set (filter (\<lambda>t. token_user t = ?u) tokens)" by simp
    then have mem: "t \<in> set tokens" "token_user t = ?u" by auto
    from live ok get_or_create_found [OF found, of k] mem uniq show ?thesis
      by (auto simp: ExperimentScopeTokenView_post_def Let_def)
  qed
qed

theorem token_get_or_create_witness:
  "distinct (map token_user example_tokens)
   \<and> last_status example_experiment \<in> set [Some SCHEDULED, Some STARTING, Some RUNNING]
   \<and> sort [''experiment'', ''user'']
       = sort (example_get_scope (user_id (exp_user example_experiment)) ''experiment''
                 (exp_id example_experiment))
   \<and> ExperimentScopeTokenView_post (Some [''experiment'', ''user'']) (Inr example_experiment)
        example_get_scope example_tokens ''k1''
       = (Inr (Response HTTP_200_OK (JDict [(''token'', JStr ''k0'')])), example_tokens)"
proof -
  have uniq: "distinct (map token_user example_tokens)" by (simp add: example_tokens_def)
  note live = example_experiment_live
  have ok: "sort [''experiment'', ''user'']
      = sort (example_get_scope (user_id (exp_user example_experiment)) ''experiment''
                (exp_id example_experiment))"
    by (simp add: example_get_scope_def)
  have ex: "\<exists>t0 \<in> set example_tokens. token_user t0 = user_id (exp_user example_experiment)"
    by (simp add: example_tokens_def example_experiment_def example_user_def)
  from token_get_or_create [where tokens = example_tokens and e = example_experiment
      and presented = "[''experiment'', ''user'']" and scope_of = example_get_scope
      and k = "''k1''", OF uniq live ok] ex
  obtain t where r: "ExperimentScopeTokenView_post (Some [''experiment'', ''user''])
        (Inr example_experiment) example_get_scope example_tokens ''k1''
       = (Inr (Response HTTP_200_OK (JDict [(''token'', JStr (token_key t))])), example_tokens)"
     and t: "t \<in> set example_tokens" "token_user t = user_id (exp_user example_experiment)"
    by auto
  from t have "token_key t = ''k0''"
    by (auto simp: example_tokens_def example_experiment_def example_user_def)
  with r have "ExperimentScopeTokenView_post (Some [''experiment'', ''user''])
      (Inr example_experiment) example_get_scope example_tokens ''k1''
       = (Inr (Response HTTP_200_OK (JDict [(''token'', JStr ''k0'')])), example_tokens)"
    by simp
  with uniq live ok show ?thesis by blast
qed

subsection \<open>Restart, resume and copy: the event and the derived experiment\<close>

lemma clone_trace_shape:
  "snd (ExperimentCloneView_post view c request) = []
   \<or> (\<exists>obj rest. get_object c = Inr obj
        \<and> snd (ExperimentCloneView_post view c request)
            = AuditorRecord (clone_event_type view) (ExperimentInstance obj)
                (Some (user_id (req_user request), username (req_user request))) # rest
        \<and> (rest = []
           \<or> (\<exists>cfg dcl ucr ds. rest = [Clone view obj (req_user request) cfg dcl ucr ds])
           \<or> (\<exists>cfg dcl ucr ds i v.
                 rest = [Clone view obj (req_user request) cfg dcl ucr ds,
                         SetForExperiment i v])))"
  by (auto simp: ExperimentCloneView_post_def Let_def
        split: json.splits sum.splits option.splits prod.splits if_splits)

lemma clone_after_record:
  assumes "snd (ExperimentCloneView_post view c request) = pre @ ef # post" and "is_clone ef"
  shows "\<exists>obj cfg dcl ucr ds. get_object c = Inr obj
           \<and> ef = Clone view obj (req_user request) cfg dcl ucr ds
           \<and> pre = [AuditorRecord (clone_event_type view) (ExperimentInstance obj)
                      (Some (user_id (req_user request), username (req_user request)))]
           \<and> \<not> list_ex is_record post"
  using clone_trace_shape [of view c request] assms
  by (auto simp: append_eq_Cons_conv Cons_eq_append_conv)

lemma clone_on_success:
  assumes "fst (ExperimentCloneView_post view c request) = Inr r"
  shows "list_ex is_clone (snd (ExperimentCloneView_post view c request))"
  using assms
  by (auto simp: ExperimentCloneView_post_def Let_def
        split: json.splits sum.splits option.splits prod.splits if_splits)

lemma clone_record_first:
  assumes "req_data request = JDict d" and "get_object c = Inr obj"
      and "\<not> truthy (dict_get d TTL_KEY) \<or> validate_ttl c (dict_get d TTL_KEY) \<noteq> None"
  shows "\<exists>rest. snd (ExperimentCloneView_post view c request)
           = AuditorRecord (clone_event_type view) (ExperimentInstance obj)
               (Some (user_id (req_user request), username (req_user request))) # rest"
  using assms
  by (auto simp: ExperimentCloneView_post_def Let_def
        split: json.splits sum.splits option.splits prod.splits if_splits)

lemma clone_records_only_source:
  assumes "ef \<in> set (snd (ExperimentCloneView_post view c request))" and "is_record ef"
  shows "\<exists>obj. get_object c = Inr obj
          \<and> ef = AuditorRecord (clone_event_type view) (ExperimentInstance obj)
                 (Some (user_id (req_user request), username (req_user request)))"
  using clone_trace_shape [of view c request] assms
  by auto

lemma clone_bad_ttl_rejected:
  assumes "req_data request = JDict d" and "truthy (dict_get d TTL_KEY)"
      and "validate_ttl c (dict_get d TTL_KEY) = None"
  shows "ExperimentCloneView_post view c request
           = (Inl (ValidationError ''ttl must be an integer.''), [])"
  using assms by (simp add: ExperimentCloneView_post_def)

lemma clone_record_first_only:
  assumes "req_data request = JDict d" and "get_object c = Inr obj"
      and "\<not> truthy (dict_get d TTL_KEY) \<or> validate_ttl c (dict_get d TTL_KEY) \<noteq> None"
  shows "\<exists>rest. snd (ExperimentCloneView_post view c request)
           = AuditorRecord (clone_event_type view) (ExperimentInstance obj)
               (Some (user_id (req_user request), username (req_user request))) # rest
         \<and> \<not> list_ex is_record rest"
  using clone_record_first [OF assms, of view] clone_trace_shape [of view c request]
  by auto

lemma event_of_view:
  "clone_event_type view
     = (case view of
          ExperimentRestartView \<Rightarrow> EXPERIMENT_RESTARTED_TRIGGERED
        | ExperimentResumeView \<Rightarrow> EXPERIMENT_RESUMED_TRIGGERED
        | ExperimentCopyView \<Rightarrow> EXPERIMENT_COPIED_TRIGGERED)"
  by (cases view) simp_all

text \<open>
  C5, as the code has it. Let the body of the request be a mapping whose ttl is absent,
  falsy or valid, and let the source be found. Then a restart records the restarted
  event, a resume the resumed event and a copy the copied event, each against the
  source and as the first effect of the request, and nothing else is recorded. In the
  trace of any request, the call of the model method that creates the derived
  experiment comes right after that one record against the object the method is called
  on, and no record follows it; every answer that is not an exception has made that
  call; every event in the trace is the event of the view against the source, none is
  against another object. A request whose ttl is truthy and fails validation raises the
  validation error with nothing recorded and nothing created.
\<close>

theorem clone_event_on_source_first:
  "(\<forall>d obj. req_data request = JDict d \<and> get_object c = Inr obj
       \<and> (\<not> truthy (dict_get d TTL_KEY) \<or> validate_ttl c (dict_get d TTL_KEY) \<noteq> None) \<longrightarrow>
       (\<exists>rest. snd (ExperimentCloneView_post ExperimentRestartView c request)
          = AuditorRecord EXPERIMENT_RESTARTED_TRIGGERED (ExperimentInstance obj)
              (Some (user_id (req_user request), username (req_user request))) # rest
        \<and> \<not> list_ex is_record rest)
     \<and> (\<exists>rest. snd (ExperimentCloneView_post ExperimentResumeView c request)
          = AuditorRecord EXPERIMENT_RESUMED_TRIGGERED (ExperimentInstance obj)
              (Some (user_id (req_user request), username (req_user request))) # rest
        \<and> \<not> list_ex is_record rest)
     \<and> (\<exists>rest. snd (ExperimentCloneView_post ExperimentCopyView c request)
          = AuditorRecord EXPERIMENT_COPIED_TRIGGERED (ExperimentInstance obj)
              (Some (user_id (req_user request), username (req_user request))) # rest
        \<and> \<not> list_ex is_record rest))
   \<and> (\<forall>view pre ef post.
        snd (ExperimentCloneView_post view c request) = pre @ ef # post \<and> is_clone ef \<longrightarrow>
        (\<exists>obj cfg dcl ucr ds. get_object c = Inr obj
           \<and> ef = Clone view obj (req_user request) cfg dcl ucr ds
           \<and> pre = [AuditorRecord
                      (case view of
                         ExperimentRestartView \<Rightarrow> EXPERIMENT_RESTARTED_TRIGGERED
                       | ExperimentResumeView \<Rightarrow> EXPERIMENT_RESUMED_TRIGGERED
                       | ExperimentCopyView \<Rightarrow> EXPERIMENT_COPIED_TRIGGERED)
                      (ExperimentInstance obj)
                      (Some (user_id (req_user request), username (req_user request)))]
           \<and> \<not> list_ex is_record post))
   \<and> (\<forall>view r. fst (ExperimentCloneView_post view c request) = Inr r \<longrightarrow>
         list_ex is_clone (snd (ExperimentCloneView_post view c request)))
   \<and> (\<forall>view ef. ef \<in> set (snd (ExperimentCloneView_post view c request)) \<and> is_record ef \<longrightarrow>
         (\<exists>obj. get_object c = Inr obj
            \<and> ef = AuditorRecord
                     (case view of
                        ExperimentRestartView \<Rightarrow> EXPERIMENT_RESTARTED_TRIGGERED
                      | ExperimentResumeView \<Rightarrow> EXPERIMENT_RESUMED_TRIGGERED
                      | ExperimentCopyView \<Rightarrow> EXPERIMENT_COPIED_TRIGGERED)
                     (ExperimentInstance obj)
                     (Some (user_id (req_user request), username (req_user request)))))
   \<and> (\<forall>view d. req_data request = JDict d \<and> truthy (dict_get d TTL_KEY)
         \<and> validate_ttl c (dict_get d TTL_KEY) = None \<longrightarrow>
         ExperimentCloneView_post view c request
           = (Inl (ValidationError ''ttl must be an integer.''), []))"
proof (intro conjI allI impI)
  fix d obj
  assume h: "req_data request = JDict d \<and> get_object c = Inr obj
       \<and> (\<not> truthy (dict_get d TTL_KEY) \<or> validate_ttl c (dict_get d TTL_KEY) \<noteq> None)"
  then have body: "req_data request = JDict d" and obj: "get_object c = Inr obj"
    and ttl: "\<not> truthy (dict_get d TTL_KEY) \<or> validate_ttl c (dict_get d TTL_KEY) \<noteq> None"
    by blast+
  from clone_record_first_only [OF body obj ttl, of ExperimentRestartView]
  show "\<exists>rest. snd (ExperimentCloneView_post ExperimentRestartView c request)
          = AuditorRecord EXPERIMENT_RESTARTED_TRIGGERED (ExperimentInstance obj)
              (Some (user_id (req_user request), username (req_user request))) # rest
        \<and> \<not> list_ex is_record rest"
    by simp
  from clone_record_first_only [OF body obj ttl, of ExperimentResumeView]
  show "\<exists>rest. snd (ExperimentCloneView_post ExperimentResumeView c request)
          = AuditorRecord EXPERIMENT_RESUMED_TRIGGERED (ExperimentInstance obj)
              (Some (user_id (req_user request), username (req_user request))) # rest
        \<and> \<not> list_ex is_record rest"
    by simp
  from clone_record_first_only [OF body obj ttl, of ExperimentCopyView]
  show "\<exists>rest. snd (ExperimentCloneView_post ExperimentCopyView c request)
          = AuditorRecord EXPERIMENT_COPIED_TRIGGERED (ExperimentInstance obj)
              (Some (user_id (req_user request), username (req_user request))) # rest
        \<and> \<not> list_ex is_record rest"
    by simp
next
  fix view pre ef post
  assume "snd (ExperimentCloneView_post view c request) = pre @ ef # post \<and> is_clone ef"
  then show "\<exists>obj cfg dcl ucr ds. get_object c = Inr obj
           \<and> ef = Clone view obj (req_user request) cfg dcl ucr ds
           \<and> pre = [AuditorRecord
                      (case view of
                         ExperimentRestartView \<Rightarrow> EXPERIMENT_RESTARTED_TRIGGERED
                       | ExperimentResumeView \<Rightarrow> EXPERIMENT_RESUMED_TRIGGERED
                       | ExperimentCopyView \<Rightarrow> EXPERIMENT_COPIED_TRIGGERED)
                      (ExperimentInstance obj)
                      (Some (user_id (req_user request), username (req_user request)))]
           \<and> \<not> list_ex is_record post"
    unfolding event_of_view [symmetric] using clone_after_record by blast
next
  fix view r
  assume "fst (ExperimentCloneView_post view c request) = Inr r"
  then show "list_ex is_clone (snd (ExperimentCloneView_post view c request))"
    by (rule clone_on_success)
next
  fix view ef
  assume "ef \<in> set (snd (ExperimentCloneView_post view c request)) \<and> is_record ef"
  then show "\<exists>obj. get_object c = Inr obj
            \<and> ef = AuditorRecord
                     (case view of
                        ExperimentRestartView \<Rightarrow> EXPERIMENT_RESTARTED_TRIGGERED
                      | ExperimentResumeView \<Rightarrow> EXPERIMENT_RESUMED_TRIGGERED
                      | ExperimentCopyView \<Rightarrow> EXPERIMENT_COPIED_TRIGGERED)
                     (ExperimentInstance obj)
                     (Some (user_id (req_user request), username (req_user request)))"
    unfolding event_of_view [symmetric] using clone_records_only_source by blast
next
  fix view d
  assume "req_data request = JDict d \<and> truthy (dict_get d TTL_KEY)
         \<and> validate_ttl c (dict_get d TTL_KEY) = None"
  then show "ExperimentCloneView_post view c request
           = (Inl (ValidationError ''ttl must be an integer.''), [])"
    using clone_bad_ttl_rejected by blast
qed

lemma plain_restart_trace:
  "snd (ExperimentCloneView_post ExperimentRestartView example_collaborators
          plain_restart_request)
     = [AuditorRecord EXPERIMENT_RESTARTED_TRIGGERED (ExperimentInstance example_experiment)
          (Some (7, ''ada''))]
       @ Clone ExperimentRestartView example_experiment example_user JNull JNull False
           (JStr ''again'') # []"
  by (simp add: ExperimentCloneView_post_def example_collaborators_def
        plain_restart_request_def dict_get_def dict_has_def TTL_KEY_def example_user_def
        Let_def)

theorem clone_event_on_source_first_witness:
  "req_data plain_restart_request = JDict [(''description'', JStr ''again'')]
   \<and> get_object example_collaborators = Inr example_experiment
   \<and> \<not> truthy (dict_get [(''description'', JStr ''again'')] TTL_KEY)
   \<and> hd (snd (ExperimentCloneView_post ExperimentRestartView example_collaborators
               plain_restart_request))
       = AuditorRecord EXPERIMENT_RESTARTED_TRIGGERED (ExperimentInstance example_experiment)
           (Some (user_id (req_user plain_restart_request),
                  username (req_user plain_restart_request)))
   \<and> hd (snd (ExperimentCloneView_post ExperimentResumeView example_collaborators
               plain_restart_request))
       = AuditorRecord EXPERIMENT_RESUMED_TRIGGERED (ExperimentInstance example_experiment)
           (Some (user_id (req_user plain_restart_request),
                  username (req_user plain_restart_request)))
   \<and> hd (snd (ExperimentCloneView_post ExperimentCopyView example_collaborators
               plain_restart_request))
       = AuditorRecord EXPERIMENT_COPIED_TRIGGERED (ExperimentInstance example_experiment)
           (Some (user_id (req_user plain_restart_request),
                  username (req_user plain_restart_request)))
   \<and> snd (ExperimentCloneView_post ExperimentRestartView example_collaborators
            plain_restart_request)
       = [AuditorRecord EXPERIMENT_RESTARTED_TRIGGERED (ExperimentInstance example_experiment)
            (Some (7, ''ada''))]
         @ Clone ExperimentRestartView example_experiment example_user JNull JNull False
             (JStr ''again'') # []
   \<and> is_clone (Clone ExperimentRestartView example_experiment example_user JNull JNull False
                 (JStr ''again''))
   \<and> (\<exists>obj. get_object example_collaborators = Inr obj
         \<and> [AuditorRecord EXPERIMENT_RESTARTED_TRIGGERED (ExperimentInstance example_experiment)
              (Some (7, ''ada''))]
           = [AuditorRecord EXPERIMENT_RESTARTED_TRIGGERED (ExperimentInstance obj)
                (Some (user_id (req_user plain_restart_request),
                       username (req_user plain_restart_request)))])"
proof -
  have body: "req_data plain_restart_request = JDict [(''description'', JStr ''again'')]"
    by (simp add: plain_restart_request_def)
  have obj: "get_object example_collaborators = Inr example_experiment"
    by (simp add: example_collaborators_def)
  have falsy: "\<not> truthy (dict_get [(''description'', JStr ''again'')] TTL_KEY)"
    by (simp add: dict_get_def TTL_KEY_def)
  note inst = clone_event_on_source_first [of plain_restart_request example_collaborators]
  from inst body obj falsy
  have heads:
    "\<exists>rest. snd (ExperimentCloneView_post ExperimentRestartView example_collaborators
               plain_restart_request)
       = AuditorRecord EXPERIMENT_RESTARTED_TRIGGERED (ExperimentInstance example_experiment)
           (Some (user_id (req_user plain_restart_request),
                  username (req_user plain_restart_request))) # rest"
    "\<exists>rest. snd (ExperimentCloneView_post ExperimentResumeView example_collaborators
               plain_restart_request)
       = AuditorRecord EXPERIMENT_RESUMED_TRIGGERED (ExperimentInstance example_experiment)
           (Some (user_id (req_user plain_restart_request),
                  username (req_user plain_restart_request))) # rest"
    "\<exists>rest. snd (ExperimentCloneView_post ExperimentCopyView example_collaborators
               plain_restart_request)
       = AuditorRecord EXPERIMENT_COPIED_TRIGGERED (ExperimentInstance example_experiment)
           (Some (user_id (req_user plain_restart_request),
                  username (req_user plain_restart_request))) # rest"
    by blast+
  then have hds:
    "hd (snd (ExperimentCloneView_post ExperimentRestartView example_collaborators
               plain_restart_request))
       = AuditorRecord EXPERIMENT_RESTARTED_TRIGGERED (ExperimentInstance example_experiment)
           (Some (user_id (req_user plain_restart_request),
                  username (req_user plain_restart_request)))"
    "hd (snd (ExperimentCloneView_post ExperimentResumeView example_collaborators
               plain_restart_request))
       = AuditorRecord EXPERIMENT_RESUMED_TRIGGERED (ExperimentInstance example_experiment)
           (Some (user_id (req_user plain_restart_request),
                  username (req_user plain_restart_request)))"
    "hd (snd (ExperimentCloneView_post ExperimentCopyView example_collaborators
               plain_restart_request))
       = AuditorRecord EXPERIMENT_COPIED_TRIGGERED (ExperimentInstance example_experiment)
           (Some (user_id (req_user plain_restart_request),
                  username (req_user plain_restart_request)))"
    by auto
  note tr = plain_restart_trace
  have cl: "is_clone (Clone ExperimentRestartView example_experiment example_user JNull JNull
      False (JStr ''again''))"
    by simp
  from inst tr cl
  have "\<exists>obj cfg dcl ucr ds. get_object example_collaborators = Inr obj
         \<and> Clone ExperimentRestartView example_experiment example_user JNull JNull False
             (JStr ''again'')
           = Clone ExperimentRestartView obj (req_user plain_restart_request) cfg dcl ucr ds
         \<and> [AuditorRecord EXPERIMENT_RESTARTED_TRIGGERED (ExperimentInstance example_experiment)
              (Some (7, ''ada''))]
           = [AuditorRecord
                (case ExperimentRestartView of
                   ExperimentRestartView \<Rightarrow> EXPERIMENT_RESTARTED_TRIGGERED
                 | ExperimentResumeView \<Rightarrow> EXPERIMENT_RESUMED_TRIGGERED
                 | ExperimentCopyView \<Rightarrow> EXPERIMENT_COPIED_TRIGGERED)
                (ExperimentInstance obj)
                (Some (user_id (req_user plain_restart_request),
                       username (req_user plain_restart_request)))]
         \<and> \<not> list_ex is_record []"
    by blast
  then have src: "\<exists>obj. get_object example_collaborators = Inr obj
         \<and> [AuditorRecord EXPERIMENT_RESTARTED_TRIGGERED (ExperimentInstance example_experiment)
              (Some (7, ''ada''))]
           = [AuditorRecord EXPERIMENT_RESTARTED_TRIGGERED (ExperimentInstance obj)
                (Some (user_id (req_user plain_restart_request),
                       username (req_user plain_restart_request)))]"
    by auto
  from body obj falsy hds tr cl src show ?thesis by blast
qed

text \<open>
  C5, as the specification states it, fails: a restart of an existing source with a ttl
  that does not validate is refused before the source is looked up, and no event is
  recorded.
\<close>

theorem bad_ttl_counterexample:
  "get_object example_collaborators = Inr example_experiment
   \<and> ExperimentCloneView_post ExperimentRestartView example_collaborators bad_ttl_request
       = (Inl (ValidationError ''ttl must be an integer.''), [])
   \<and> \<not> list_ex is_record
         (snd (ExperimentCloneView_post ExperimentRestartView example_collaborators
                 bad_ttl_request))"
  by (simp add: ExperimentCloneView_post_def example_collaborators_def bad_ttl_request_def
        dict_get_def TTL_KEY_def)

subsection \<open>Metrics sent as a list\<close>

text \<open>
  C7. When the request body is a list, no metric row is saved. If the experiment is
  found, the answer is 201 and the trace is one \<^verbatim>\<open>set_metrics\<close> task whose keyword
  arguments are the id of the experiment and the list as it came; if the lookup raises,
  the exception is the outcome and nothing is sent.
\<close>

theorem list_metrics_enqueued:
  assumes "req_data request = JList records"
  shows "\<not> list_ex is_save_metric (snd (create c experiment_id request))
     \<and> (\<forall>e. get_experiment c experiment_id = Inr e \<longrightarrow>
          create c experiment_id request
            = (Inr (Response HTTP_201_CREATED JNull),
               [SendTask EXPERIMENTS_SET_METRICS
                  [(''experiment_id'', JInt (exp_id e)), (''data'', JList records)]]))
     \<and> (\<forall>err. get_experiment c experiment_id = Inl err \<longrightarrow>
          create c experiment_id request = (Inl err, []))"
  using assms by (auto simp: create_def split: sum.splits)

theorem list_metrics_enqueued_witness:
  "req_data metrics_request
     = JList [JDict [(''loss'', JInt 3)], JDict [(''loss'', JInt 2)], JDict [(''loss'', JInt 1)]]
   \<and> get_experiment example_collaborators 3 = Inr example_experiment
   \<and> create example_collaborators 3 metrics_request
       = (Inr (Response HTTP_201_CREATED JNull),
          [SendTask EXPERIMENTS_SET_METRICS
             [(''experiment_id'', JInt (exp_id example_experiment)),
              (''data'', JList [JDict [(''loss'', JInt 3)], JDict [(''loss'', JInt 2)],
                                JDict [(''loss'', JInt 1)]])]])
   \<and> exp_id example_experiment = 3"
proof -
  have body: "req_data metrics_request
     = JList [JDict [(''loss'', JInt 3)], JDict [(''loss'', JInt 2)], JDict [(''loss'', JInt 1)]]"
    by (simp add: metrics_request_def)
  have found: "get_experiment example_collaborators 3 = Inr example_experiment"
    by (simp add: get_experiment_def example_collaborators_def)
  have ident: "exp_id example_experiment = 3"
    by (simp add: example_experiment_def)
  from list_metrics_enqueued [OF body, of example_collaborators 3] body found ident
  show ?thesis by blast
qed

subsection \<open>Stop\<close>

text \<open>
  C8. A stop request whose experiment is found answers 200 after two effects, in this
  order: the record of the stop-triggered event against the experiment, and one
  \<^verbatim>\<open>stop\<close> task. The keyword arguments of the task are the names and uuids of the project
  and of the experiment, the name and uuid of the group, both present and \<^verbatim>\<open>None\<close> when
  the experiment has no group, the experiment's \<^verbatim>\<open>config\<close> under \<^verbatim>\<open>specification\<close>, and
  \<^verbatim>\<open>update_status\<close> set.
\<close>

theorem stop_emits_event_and_command:
  assumes "get_object c = Inr obj"
  shows "\<exists>payload.
      ExperimentStopView_post c request
        = (Inr (Response HTTP_200_OK JNull),
           [AuditorRecord EXPERIMENT_STOPPED_TRIGGERED (ExperimentInstance obj)
              (Some (user_id (req_user request), username (req_user request))),
            SendTask EXPERIMENTS_STOP payload])
    \<and> map fst payload
        = [''project_name'', ''project_uuid'', ''experiment_name'', ''experiment_uuid'',
           ''experiment_group_name'', ''experiment_group_uuid'', ''specification'',
           ''update_status'']
    \<and> dict_get payload ''project_name''
        = JStr (unique_name (PROJECT_UNIQUE_NAME_FORMAT c) (exp_project obj))
    \<and> dict_get payload ''project_uuid'' = JStr (project_uuid_hex (exp_project obj))
    \<and> dict_get payload ''experiment_name'' = JStr (exp_unique_name obj)
    \<and> dict_get payload ''experiment_uuid'' = JStr (exp_uuid_hex obj)
    \<and> (exp_group obj = None \<longrightarrow>
          dict_get payload ''experiment_group_name'' = JNull
        \<and> dict_get payload ''experiment_group_uuid'' = JNull)
    \<and> (\<forall>g. exp_group obj = Some g \<longrightarrow>
          dict_get payload ''experiment_group_name'' = JStr (group_unique_name g)
        \<and> dict_get payload ''experiment_group_uuid'' = JStr (group_uuid_hex g))
    \<and> dict_get payload ''specification'' = exp_config obj
    \<and> dict_get payload ''update_status'' = JBool True"
  using assms by (auto simp: ExperimentStopView_post_def dict_get_def Let_def)

theorem stop_emits_event_and_command_witness:
  "get_object grouped_collaborators = Inr grouped_experiment
   \<and> exp_group grouped_experiment = Some example_group
   \<and> (\<exists>payload.
        ExperimentStopView_post grouped_collaborators plain_restart_request
          = (Inr (Response HTTP_200_OK JNull),
             [AuditorRecord EXPERIMENT_STOPPED_TRIGGERED (ExperimentInstance grouped_experiment)
                (Some (user_id (req_user plain_restart_request),
                       username (req_user plain_restart_request))),
              SendTask EXPERIMENTS_STOP payload])
      \<and> dict_get payload ''experiment_group_name'' = JStr (group_unique_name example_group)
      \<and> dict_get payload ''experiment_group_uuid'' = JStr (group_uuid_hex example_group)
      \<and> dict_get payload ''specification'' = exp_config grouped_experiment
      \<and> dict_get payload ''update_status'' = JBool True)"
proof -
  have found: "get_object grouped_collaborators = Inr grouped_experiment"
    by (simp add: grouped_collaborators_def)
  have grp: "exp_group grouped_experiment = Some example_group"
    by (simp add: grouped_experiment_def)
  from stop_emits_event_and_command [OF found, of plain_restart_request] found grp
  show ?thesis by blast
qed

subsection \<open>Filters that exclude each other\<close>




subsection \<open>A configuration that overrides the source's\<close>

lemma validate_pair:
  "validate_experiment_spec_config check declarations_of [JDict src, JDict ov]
     = (case check (JDict (AList.merge src ov)) of
          Some message \<Rightarrow> Inl (ValidationError message)
        | None \<Rightarrow>
            Inr \<lparr>spec_parsed_data = JDict (AList.merge src ov),
                 spec_declarations = declarations_of (JDict (AList.merge src ov))\<rparr>)"
  by (simp add: validate_experiment_spec_config_def override_def Let_def)

lemma clone_with_config:
  assumes "req_data request = JDict d"
      and "dict_has d ''config''"
      and "get_object c = Inr obj"
      and "\<not> truthy (dict_get d TTL_KEY) \<or> validate_ttl c (dict_get d TTL_KEY) \<noteq> None"
  shows "ExperimentCloneView_post view c request =
     (let ttl = (if truthy (dict_get d TTL_KEY)
                 then the (validate_ttl c (dict_get d TTL_KEY)) else dict_get d TTL_KEY);
          tr = [AuditorRecord (clone_event_type view) (ExperimentInstance obj)
                  (Some (user_id (req_user request), username (req_user request)))]
      in case validate_spec c [exp_parsed_data obj, dict_get d ''config''] of
           Inl e \<Rightarrow> (Inl e, tr)
         | Inr spec \<Rightarrow>
            (case (if dict_has d ''update_code''
                   then to_bool c (dict_get d ''update_code'') else Inr False) of
               Inl e \<Rightarrow> (Inl e, tr)
             | Inr ucr \<Rightarrow>
                (let ds = (if dict_has d ''description''
                           then dict_get d ''description'' else JNull);
                     new_obj = clone c view obj (req_user request) (spec_parsed_data spec)
                                 (spec_declarations spec) ucr ds;
                     tr2 = tr @ [Clone view obj (req_user request) (spec_parsed_data spec)
                                   (spec_declarations spec) ucr ds]
                 in (Inr (Response HTTP_201_CREATED (serializer_data c new_obj)),
                     if truthy ttl then tr2 @ [SetForExperiment (exp_id new_obj) ttl]
                     else tr2))))"
  using assms
  by (auto simp: ExperimentCloneView_post_def Let_def split: sum.splits option.splits)

text \<open>
  C6. Let a restart, resume or copy request carry a \<^verbatim>\<open>config\<close>, find its source, and
  pass the ttl check; let the source's parsed specification and the override be
  mappings, and let the validator be the one of the specification, called on the pair
  source first, override second. The two are merged with the override's keys winning.
  If the check of the merged configuration fails, the request raises the validation
  error with the check's message after the event has been recorded, and no derived
  experiment is created. If it passes, and \<^verbatim>\<open>update_code\<close> reads as a boolean, the
  model method is called with the merged configuration and its declarations, and the
  answer is 201. No call of the model method in the trace carries any other
  configuration.
\<close>

theorem override_config_validated:
  assumes d: "req_data request = JDict d"
      and cfg: "dict_has d ''config''"
      and obj: "get_object c = Inr obj"
      and ttl: "\<not> truthy (dict_get d TTL_KEY) \<or> validate_ttl c (dict_get d TTL_KEY) \<noteq> None"
      and v: "validate_spec c = validate_experiment_spec_config check declarations_of"
      and src: "exp_parsed_data obj = JDict src"
      and ov: "dict_get d ''config'' = JDict ov"
  shows "(\<forall>message. check (JDict (AList.merge src ov)) = Some message \<longrightarrow>
            ExperimentCloneView_post view c request
              = (Inl (ValidationError message),
                 [AuditorRecord (clone_event_type view) (ExperimentInstance obj)
                    (Some (user_id (req_user request), username (req_user request)))]))
       \<and> (\<forall>ucr. check (JDict (AList.merge src ov)) = None
               \<and> (if dict_has d ''update_code''
                   then to_bool c (dict_get d ''update_code'') else Inr False) = Inr ucr \<longrightarrow>
            fst (ExperimentCloneView_post view c request)
              = Inr (Response HTTP_201_CREATED
                  (serializer_data c
                     (clone c view obj (req_user request) (JDict (AList.merge src ov))
                        (declarations_of (JDict (AList.merge src ov))) ucr
                        (if dict_has d ''description''
                         then dict_get d ''description'' else JNull))))
          \<and> Clone view obj (req_user request) (JDict (AList.merge src ov))
               (declarations_of (JDict (AList.merge src ov))) ucr
               (if dict_has d ''description'' then dict_get d ''description'' else JNull)
              \<in> set (snd (ExperimentCloneView_post view c request)))
       \<and> (\<forall>ef. ef \<in> set (snd (ExperimentCloneView_post view c request)) \<and> is_clone ef \<longrightarrow>
            check (JDict (AList.merge src ov)) = None
          \<and> (\<exists>ucr ds. ef = Clone view obj (req_user request) (JDict (AList.merge src ov))
                             (declarations_of (JDict (AList.merge src ov))) ucr ds))
       \<and> map_of (AList.merge src ov) = map_of src ++ map_of ov"
proof -
  note post = clone_with_config [OF d cfg obj ttl, of view]
  note pair = validate_pair [of check declarations_of src ov]
  have a: "\<forall>message. check (JDict (AList.merge src ov)) = Some message \<longrightarrow>
            ExperimentCloneView_post view c request
              = (Inl (ValidationError message),
                 [AuditorRecord (clone_event_type view) (ExperimentInstance obj)
                    (Some (user_id (req_user request), username (req_user request)))])"
    by (simp add: post v src ov pair Let_def)
  have b: "\<forall>ucr. check (JDict (AList.merge src ov)) = None
               \<and> (if dict_has d ''update_code''
                   then to_bool c (dict_get d ''update_code'') else Inr False) = Inr ucr \<longrightarrow>
            fst (ExperimentCloneView_post view c request)
              = Inr (Response HTTP_201_CREATED
                  (serializer_data c
                     (clone c view obj (req_user request) (JDict (AList.merge src ov))
                        (declarations_of (JDict (AList.merge src ov))) ucr
                        (if dict_has d ''description''
                         then dict_get d ''description'' else JNull))))
          \<and> Clone view obj (req_user request) (JDict (AList.merge src ov))
               (declarations_of (JDict (AList.merge src ov))) ucr
               (if dict_has d ''description'' then dict_get d ''description'' else JNull)
              \<in> set (snd (ExperimentCloneView_post view c request))"
    by (simp add: post v src ov pair Let_def)
  have c: "\<forall>ef. ef \<in> set (snd (ExperimentCloneView_post view c request)) \<and> is_clone ef \<longrightarrow>
            check (JDict (AList.merge src ov)) = None
          \<and> (\<exists>ucr ds. ef = Clone view obj (req_user request) (JDict (AList.merge src ov))
                             (declarations_of (JDict (AList.merge src ov))) ucr ds)"
    by (auto simp: post v src ov pair Let_def split: option.splits sum.splits if_splits)
  have m: "map_of (AList.merge src ov) = map_of src ++ map_of ov"
    by (rule AList.merge_conv')
  from a b c m show ?thesis by blast
qed

theorem override_config_validated_witness:
  "req_data restart_request
     = JDict [(''config'', JDict [(''lr'', JStr ''0.01'')]), (''ttl'', JInt 0)]
   \<and> dict_has [(''config'', JDict [(''lr'', JStr ''0.01'')]), (''ttl'', JInt 0)] ''config''
   \<and> get_object validating_collaborators = Inr example_experiment
   \<and> \<not> truthy (dict_get [(''config'', JDict [(''lr'', JStr ''0.01'')]), (''ttl'', JInt 0)]
                  TTL_KEY)
   \<and> validate_spec validating_collaborators
       = validate_experiment_spec_config example_check (\<lambda>m. m)
   \<and> exp_parsed_data example_experiment = JDict [(''lr'', JStr ''0.1'')]
   \<and> dict_get [(''config'', JDict [(''lr'', JStr ''0.01'')]), (''ttl'', JInt 0)] ''config''
       = JDict [(''lr'', JStr ''0.01'')]
   \<and> example_check (JDict (AList.merge [(''lr'', JStr ''0.1'')] [(''lr'', JStr ''0.01'')]))
       = None
   \<and> AList.merge [(''lr'', JStr ''0.1'')] [(''lr'', JStr ''0.01'')] = [(''lr'', JStr ''0.01'')]
   \<and> Clone ExperimentRestartView example_experiment (req_user restart_request)
        (JDict (AList.merge [(''lr'', JStr ''0.1'')] [(''lr'', JStr ''0.01'')]))
        (JDict (AList.merge [(''lr'', JStr ''0.1'')] [(''lr'', JStr ''0.01'')])) False JNull
       \<in> set (snd (ExperimentCloneView_post ExperimentRestartView validating_collaborators
                     restart_request))"
proof -
  let ?d = "[(''config'', JDict [(''lr'', JStr ''0.01'')]), (''ttl'', JInt 0)]"
  have d: "req_data restart_request = JDict ?d" by (simp add: restart_request_def)
  have cfg: "dict_has ?d ''config''" by (simp add: dict_has_def)
  have obj: "get_object validating_collaborators = Inr example_experiment"
    by (simp add: validating_collaborators_def example_collaborators_def)
  have falsy: "\<not> truthy (dict_get ?d TTL_KEY)" by (simp add: dict_get_def TTL_KEY_def)
  then have ttl: "\<not> truthy (dict_get ?d TTL_KEY)
      \<or> validate_ttl validating_collaborators (dict_get ?d TTL_KEY) \<noteq> None"
    by blast
  have v: "validate_spec validating_collaborators
       = validate_experiment_spec_config example_check (\<lambda>m. m)"
    by (simp add: validating_collaborators_def)
  have src: "exp_parsed_data example_experiment = JDict [(''lr'', JStr ''0.1'')]"
    by (simp add: example_experiment_def)
  have ov: "dict_get ?d ''config'' = JDict [(''lr'', JStr ''0.01'')]"
    by (simp add: dict_get_def)
  have chk: "example_check (JDict (AList.merge [(''lr'', JStr ''0.1'')]
      [(''lr'', JStr ''0.01'')])) = None"
    by simp
  have mrg: "AList.merge [(''lr'', JStr ''0.1'')] [(''lr'', JStr ''0.01'')]
      = [(''lr'', JStr ''0.01'')]"
    by (simp add: AList.merge_def)
  have upd: "(if dict_has ?d ''update_code''
      then to_bool validating_collaborators (dict_get ?d ''update_code'') else Inr False)
      = Inr False"
    by (simp add: dict_has_def)
  have ds: "(if dict_has ?d ''description'' then dict_get ?d ''description'' else JNull)
      = JNull"
    by (simp add: dict_has_def)
  from override_config_validated [OF d cfg obj ttl v src ov, of ExperimentRestartView]
    chk upd
  have "Clone ExperimentRestartView example_experiment (req_user restart_request)
        (JDict (AList.merge [(''lr'', JStr ''0.1'')] [(''lr'', JStr ''0.01'')]))
        (JDict (AList.merge [(''lr'', JStr ''0.1'')] [(''lr'', JStr ''0.01'')])) False
        (if dict_has ?d ''description'' then dict_get ?d ''description'' else JNull)
       \<in> set (snd (ExperimentCloneView_post ExperimentRestartView validating_collaborators
                     restart_request))"
    by blast
  then have cl: "Clone ExperimentRestartView example_experiment (req_user restart_request)
        (JDict (AList.merge [(''lr'', JStr ''0.1'')] [(''lr'', JStr ''0.01'')]))
        (JDict (AList.merge [(''lr'', JStr ''0.1'')] [(''lr'', JStr ''0.01'')])) False JNull
       \<in> set (snd (ExperimentCloneView_post ExperimentRestartView validating_collaborators
                     restart_request))"
    by (simp only: ds)
  from d cfg obj falsy v src ov chk mrg cl show ?thesis by blast
qed

subsection \<open>A ttl that is falsy\<close>

lemma dict_get_delete:
  "k' \<noteq> k \<Longrightarrow> dict_get (AList.delete k d) k' = dict_get d k'"
  by (simp add: dict_get_def AList.delete_conv')

lemma dict_has_delete:
  "k' \<noteq> k \<Longrightarrow> dict_has (AList.delete k d) k' = dict_has d k'"
  by (simp add: dict_has_def AList.delete_conv')

lemma dict_get_delete_same: "dict_get (AList.delete k d) k = JNull"
  by (simp add: dict_get_def AList.delete_conv')

lemma perform_create_falsy:
  assumes "\<not> truthy (dict_get d TTL_KEY)"
  shows "perform_create c u d =
     (case get_permissible_project c of
        Inl e \<Rightarrow> (Inl e, [])
      | Inr project \<Rightarrow>
          if truthy (dict_get d ''experiment_group'')
             \<and> count_groups c (dict_get d ''experiment_group'') project = 0
          then (Inl (ValidationError ''Received an invalid group.''), [])
          else (Inr (serializer_save c u project),
                [SaveExperiment u project,
                 AuditorRecord EXPERIMENT_CREATED
                   (ExperimentInstance (serializer_save c u project)) None]))"
  using assms by (simp add: perform_create_def Let_def split: sum.splits)

lemma clone_falsy:
  assumes "req_data request = JDict d" and "\<not> truthy (dict_get d TTL_KEY)"
  shows "ExperimentCloneView_post view c request =
     (case get_object c of
        Inl e \<Rightarrow> (Inl e, [])
      | Inr obj \<Rightarrow>
         (let tr = [AuditorRecord (clone_event_type view) (ExperimentInstance obj)
                      (Some (user_id (req_user request), username (req_user request)))]
          in case (if dict_has d ''config''
                   then (case validate_spec c [exp_parsed_data obj, dict_get d ''config''] of
                           Inl e \<Rightarrow> Inl e
                         | Inr spec \<Rightarrow> Inr (spec_parsed_data spec, spec_declarations spec))
                   else Inr (JNull, JNull)) of
               Inl e \<Rightarrow> (Inl e, tr)
             | Inr (cfg, dcl) \<Rightarrow>
                (case (if dict_has d ''update_code''
                       then to_bool c (dict_get d ''update_code'') else Inr False) of
                   Inl e \<Rightarrow> (Inl e, tr)
                 | Inr ucr \<Rightarrow>
                    (let ds = (if dict_has d ''description''
                               then dict_get d ''description'' else JNull)
                     in (Inr (Response HTTP_201_CREATED
                                (serializer_data c
                                   (clone c view obj (req_user request) cfg dcl ucr ds))),
                         tr @ [Clone view obj (req_user request) cfg dcl ucr ds])))))"
  using assms
  by (simp add: ExperimentCloneView_post_def Let_def split: sum.splits prod.splits)

text \<open>
  C10. Let the value under \<^verbatim>\<open>ttl\<close> be falsy (absent, \<^verbatim>\<open>None\<close>, \<^verbatim>\<open>0\<close>, the empty
  string, \<^verbatim>\<open>False\<close>, an empty list or dict). Creating an experiment and each of
  restart, resume and copy then behave as if the key were not there: the outcome and
  the trace do not depend on the ttl validator, they are those of the same body without
  the key, and no ttl is set. The experiment is created whenever the rest of the request
  passes: on create, when the project is permitted and the group, if one is given,
  exists; on a clone without \<^verbatim>\<open>config\<close> and \<^verbatim>\<open>update_code\<close>, when the source is found.
\<close>

theorem falsy_ttl_ignored:
  assumes "\<not> truthy (dict_get d TTL_KEY)"
  shows "perform_create (c\<lparr>validate_ttl := v\<rparr>) u d = perform_create c u d
     \<and> perform_create c u d = perform_create c u (AList.delete TTL_KEY d)
     \<and> \<not> list_ex is_set_ttl (snd (perform_create c u d))
     \<and> (\<forall>project. get_permissible_project c = Inr project
           \<and> \<not> (truthy (dict_get d ''experiment_group'')
                \<and> count_groups c (dict_get d ''experiment_group'') project = 0) \<longrightarrow>
           perform_create c u d
             = (Inr (serializer_save c u project),
                [SaveExperiment u project,
                 AuditorRecord EXPERIMENT_CREATED
                   (ExperimentInstance (serializer_save c u project)) None]))
     \<and> (req_data request = JDict d \<longrightarrow>
           ExperimentCloneView_post view (c\<lparr>validate_ttl := v\<rparr>) request
             = ExperimentCloneView_post view c request
         \<and> ExperimentCloneView_post view c request
             = ExperimentCloneView_post view c
                 (request\<lparr>req_data := JDict (AList.delete TTL_KEY d)\<rparr>)
         \<and> \<not> list_ex is_set_ttl (snd (ExperimentCloneView_post view c request))
         \<and> (\<forall>obj. get_object c = Inr obj \<and> \<not> dict_has d ''config''
               \<and> \<not> dict_has d ''update_code'' \<longrightarrow>
               ExperimentCloneView_post view c request
                 = (Inr (Response HTTP_201_CREATED
                      (serializer_data c
                         (clone c view obj (req_user request) JNull JNull False
                            (if dict_has d ''description''
                             then dict_get d ''description'' else JNull)))),
                    [AuditorRecord (clone_event_type view) (ExperimentInstance obj)
                       (Some (user_id (req_user request), username (req_user request))),
                     Clone view obj (req_user request) JNull JNull False
                       (if dict_has d ''description''
                        then dict_get d ''description'' else JNull)])))"
proof -
  have gone: "\<not> truthy (dict_get (AList.delete TTL_KEY d) TTL_KEY)"
    by (simp add: dict_get_delete_same)
  have grp: "dict_get (AList.delete TTL_KEY d) ''experiment_group''
      = dict_get d ''experiment_group''"
    by (simp add: dict_get_delete TTL_KEY_def)
  have p1: "perform_create (c\<lparr>validate_ttl := v\<rparr>) u d = perform_create c u d"
    using assms by (simp add: perform_create_falsy split: sum.splits)
  have p2: "perform_create c u d = perform_create c u (AList.delete TTL_KEY d)"
    using assms gone by (simp add: perform_create_falsy grp split: sum.splits)
  have p3: "\<not> list_ex is_set_ttl (snd (perform_create c u d))"
    using assms by (simp add: perform_create_falsy split: sum.splits)
  have p4: "\<forall>project. get_permissible_project c = Inr project
           \<and> \<not> (truthy (dict_get d ''experiment_group'')
                \<and> count_groups c (dict_get d ''experiment_group'') project = 0) \<longrightarrow>
           perform_create c u d
             = (Inr (serializer_save c u project),
                [SaveExperiment u project,
                 AuditorRecord EXPERIMENT_CREATED
                   (ExperimentInstance (serializer_save c u project)) None])"
    using assms by (auto simp: perform_create_falsy)
  have q: "req_data request = JDict d \<longrightarrow>
           ExperimentCloneView_post view (c\<lparr>validate_ttl := v\<rparr>) request
             = ExperimentCloneView_post view c request
         \<and> ExperimentCloneView_post view c request
             = ExperimentCloneView_post view c
                 (request\<lparr>req_data := JDict (AList.delete TTL_KEY d)\<rparr>)
         \<and> \<not> list_ex is_set_ttl (snd (ExperimentCloneView_post view c request))
         \<and> (\<forall>obj. get_object c = Inr obj \<and> \<not> dict_has d ''config''
               \<and> \<not> dict_has d ''update_code'' \<longrightarrow>
               ExperimentCloneView_post view c request
                 = (Inr (Response HTTP_201_CREATED
                      (serializer_data c
                         (clone c view obj (req_user request) JNull JNull False
                            (if dict_has d ''description''
                             then dict_get d ''description'' else JNull)))),
                    [AuditorRecord (clone_event_type view) (ExperimentInstance obj)
                       (Some (user_id (req_user request), username (req_user request))),
                     Clone view obj (req_user request) JNull JNull False
                       (if dict_has d ''description''
                        then dict_get d ''description'' else JNull)]))"
  proof
    assume body: "req_data request = JDict d"
    have body': "req_data (request\<lparr>req_data := JDict (AList.delete TTL_KEY d)\<rparr>)
        = JDict (AList.delete TTL_KEY d)"
      by simp
    have keys: "dict_has (AList.delete TTL_KEY d) ''config'' = dict_has d ''config''"
      "dict_has (AList.delete TTL_KEY d) ''update_code'' = dict_has d ''update_code''"
      "dict_has (AList.delete TTL_KEY d) ''description'' = dict_has d ''description''"
      "dict_get (AList.delete TTL_KEY d) ''config'' = dict_get d ''config''"
      "dict_get (AList.delete TTL_KEY d) ''update_code'' = dict_get d ''update_code''"
      "dict_get (AList.delete TTL_KEY d) ''description'' = dict_get d ''description''"
      by (simp_all add: dict_get_delete dict_has_delete TTL_KEY_def)
    have c1: "ExperimentCloneView_post view (c\<lparr>validate_ttl := v\<rparr>) request
             = ExperimentCloneView_post view c request"
      by (simp add: clone_falsy [OF body assms] Let_def split: sum.splits prod.splits)
    have c2: "ExperimentCloneView_post view c request
             = ExperimentCloneView_post view c
                 (request\<lparr>req_data := JDict (AList.delete TTL_KEY d)\<rparr>)"
      by (simp add: clone_falsy [OF body assms] clone_falsy [OF body' gone] keys Let_def
            split: sum.splits prod.splits)
    have c3: "\<not> list_ex is_set_ttl (snd (ExperimentCloneView_post view c request))"
      by (simp add: clone_falsy [OF body assms] Let_def split: sum.splits prod.splits)
    have c4: "\<forall>obj. get_object c = Inr obj \<and> \<not> dict_has d ''config''
               \<and> \<not> dict_has d ''update_code'' \<longrightarrow>
               ExperimentCloneView_post view c request
                 = (Inr (Response HTTP_201_CREATED
                      (serializer_data c
                         (clone c view obj (req_user request) JNull JNull False
                            (if dict_has d ''description''
                             then dict_get d ''description'' else JNull)))),
                    [AuditorRecord (clone_event_type view) (ExperimentInstance obj)
                       (Some (user_id (req_user request), username (req_user request))),
                     Clone view obj (req_user request) JNull JNull False
                       (if dict_has d ''description''
                        then dict_get d ''description'' else JNull)])"
      by (simp add: clone_falsy [OF body assms] Let_def)
    from c1 c2 c3 c4
    show "ExperimentCloneView_post view (c\<lparr>validate_ttl := v\<rparr>) request
             = ExperimentCloneView_post view c request
         \<and> ExperimentCloneView_post view c request
             = ExperimentCloneView_post view c
                 (request\<lparr>req_data := JDict (AList.delete TTL_KEY d)\<rparr>)
         \<and> \<not> list_ex is_set_ttl (snd (ExperimentCloneView_post view c request))
         \<and> (\<forall>obj. get_object c = Inr obj \<and> \<not> dict_has d ''config''
               \<and> \<not> dict_has d ''update_code'' \<longrightarrow>
               ExperimentCloneView_post view c request
                 = (Inr (Response HTTP_201_CREATED
                      (serializer_data c
                         (clone c view obj (req_user request) JNull JNull False
                            (if dict_has d ''description''
                             then dict_get d ''description'' else JNull)))),
                    [AuditorRecord (clone_event_type view) (ExperimentInstance obj)
                       (Some (user_id (req_user request), username (req_user request))),
                     Clone view obj (req_user request) JNull JNull False
                       (if dict_has d ''description''
                        then dict_get d ''description'' else JNull)]))"
      by blast
  qed
  from p1 p2 p3 p4 q show ?thesis by blast
qed

theorem falsy_ttl_ignored_witness:
  "\<not> truthy (dict_get zero_ttl_body TTL_KEY)
   \<and> \<not> truthy (dict_get blank_ttl_body TTL_KEY)
   \<and> get_permissible_project example_collaborators = Inr example_project
   \<and> \<not> (truthy (dict_get blank_ttl_body ''experiment_group'')
        \<and> count_groups example_collaborators (dict_get blank_ttl_body ''experiment_group'')
             example_project = 0)
   \<and> perform_create example_collaborators example_user blank_ttl_body
       = (Inr (serializer_save example_collaborators example_user example_project),
          [SaveExperiment example_user example_project,
           AuditorRecord EXPERIMENT_CREATED
             (ExperimentInstance
                (serializer_save example_collaborators example_user example_project)) None])
   \<and> req_data zero_ttl_request = JDict zero_ttl_body
   \<and> get_object example_collaborators = Inr example_experiment
   \<and> \<not> dict_has zero_ttl_body ''config''
   \<and> \<not> dict_has zero_ttl_body ''update_code''
   \<and> ExperimentCloneView_post ExperimentCopyView example_collaborators zero_ttl_request
       = (Inr (Response HTTP_201_CREATED
            (serializer_data example_collaborators
               (clone example_collaborators ExperimentCopyView example_experiment
                  (req_user zero_ttl_request) JNull JNull False
                  (if dict_has zero_ttl_body ''description''
                   then dict_get zero_ttl_body ''description'' else JNull)))),
          [AuditorRecord (clone_event_type ExperimentCopyView)
             (ExperimentInstance example_experiment)
             (Some (user_id (req_user zero_ttl_request), username (req_user zero_ttl_request))),
           Clone ExperimentCopyView example_experiment (req_user zero_ttl_request) JNull JNull
             False
             (if dict_has zero_ttl_body ''description''
              then dict_get zero_ttl_body ''description'' else JNull)])"
proof -
  have zero: "\<not> truthy (dict_get zero_ttl_body TTL_KEY)"
    by (simp add: zero_ttl_body_def dict_get_def TTL_KEY_def)
  have blank: "\<not> truthy (dict_get blank_ttl_body TTL_KEY)"
    by (simp add: blank_ttl_body_def dict_get_def TTL_KEY_def)
  have proj: "get_permissible_project example_collaborators = Inr example_project"
    by (simp add: example_collaborators_def)
  have nogroup: "\<not> (truthy (dict_get blank_ttl_body ''experiment_group'')
        \<and> count_groups example_collaborators (dict_get blank_ttl_body ''experiment_group'')
             example_project = 0)"
    by (simp add: blank_ttl_body_def dict_get_def)
  have body: "req_data zero_ttl_request = JDict zero_ttl_body"
    by (simp add: zero_ttl_request_def)
  have obj: "get_object example_collaborators = Inr example_experiment"
    by (simp add: example_collaborators_def)
  have nocfg: "\<not> dict_has zero_ttl_body ''config''"
    by (simp add: zero_ttl_body_def dict_has_def)
  have noupd: "\<not> dict_has zero_ttl_body ''update_code''"
    by (simp add: zero_ttl_body_def dict_has_def)
  from falsy_ttl_ignored [OF blank, where c = example_collaborators
      and v = example_validate_ttl and u = example_user and request = zero_ttl_request
      and view = ExperimentCopyView] proj nogroup
  have created: "perform_create example_collaborators example_user blank_ttl_body
       = (Inr (serializer_save example_collaborators example_user example_project),
          [SaveExperiment example_user example_project,
           AuditorRecord EXPERIMENT_CREATED
             (ExperimentInstance
                (serializer_save example_collaborators example_user example_project)) None])"
    by blast
  from falsy_ttl_ignored [OF zero, where c = example_collaborators
      and v = example_validate_ttl and u = example_user and request = zero_ttl_request
      and view = ExperimentCopyView] body obj nocfg noupd
  have copied: "ExperimentCloneView_post ExperimentCopyView example_collaborators
      zero_ttl_request
       = (Inr (Response HTTP_201_CREATED
            (serializer_data example_collaborators
               (clone example_collaborators ExperimentCopyView example_experiment
                  (req_user zero_ttl_request) JNull JNull False
                  (if dict_has zero_ttl_body ''description''
                   then dict_get zero_ttl_body ''description'' else JNull)))),
          [AuditorRecord (clone_event_type ExperimentCopyView)
             (ExperimentInstance example_experiment)
             (Some (user_id (req_user zero_ttl_request), username (req_user zero_ttl_request))),
           Clone ExperimentCopyView example_experiment (req_user zero_ttl_request) JNull JNull
             False
             (if dict_has zero_ttl_body ''description''
              then dict_get zero_ttl_body ''description'' else JNull)])"
    by blast
  from zero blank proj nogroup created body obj nocfg noupd copied show ?thesis by blast
qed

end
